theory Spec2Isabelle
  imports Complex_Main
begin

section \<open>The preview lifecycle coordinator of \<^verbatim>\<open>src/manager.ts\<close>\<close>

text \<open>
  The class \<^verbatim>\<open>Manager\<close> reacts to callbacks of the host: commands, events of the task
  provider, the connection event of the server, the disposal of the preview panel, a timer
  and configuration changes. Its fields, together with what it reads from its
  collaborators, form the record \<open>manager\<close>; every method is a function on that record,
  and every call it issues to a collaborator is appended to the field \<open>effects\<close>.
\<close>

subsection \<open>Data\<close>

type_synonym uri = string

datatype webviewPanel = WebviewPanel nat

datatype serverStartedStatus = JUST_STARTED | STARTED_BY_EMBEDDED_PREV

text \<open>The interface \<^verbatim>\<open>serverMsg\<close> (lines 20-24).\<close>

record serverMsg =
  "method" :: string
  url :: string
  status :: int

text \<open>The interface \<^verbatim>\<open>launchInfo\<close> (lines 26-31); \<open>panel\<close> is optional there.\<close>

record launchInfo =
  external :: bool
  "file" :: string
  relative :: bool
  panel :: "webviewPanel option"

text \<open>
  A \<^verbatim>\<open>BrowserPreview\<close> as the manager constructs it (lines 303-312): the file it shows
  and the panel it wraps.
\<close>

record browserPreview =
  bp_file :: string
  bp_panel :: webviewPanel

text \<open>
  The settings read through \<^verbatim>\<open>SettingUtil.GetConfig\<close>. The keep-alive is a JavaScript
  number of minutes; it is a rational here, so the rounding of doubles is not modelled.
\<close>

record settings =
  portNumber :: nat
  setting_runTaskWithExternalPreview :: bool
  serverKeepAliveAfterEmbeddedPreviewClose :: rat
  notifyOnOpenLooseFile :: bool
  browserPreviewLaunchServerLogging :: bool

text \<open>Calls the manager issues to its collaborators and to the host.\<close>

datatype effect =
    ServerOpenServer nat
  | ServerCloseServer
  | ServerUpdateConfigurations
  | TaskServerStarted uri serverStartedStatus
  | TaskServerStop bool
  | TaskExtRunTask bool
  | TaskSendServerInfoToTerminal serverMsg
  | ConnectionDisconnected
  | PanelClose
  | PanelReveal string
  | CreateWebviewPanel
  | NewBrowserPreview string webviewPanel
  | OpenExternal uri
  | VscodeOpen uri "int option"
  | SendTelemetryEvent string
  | ShowWarningMessage

text \<open>
  The first six fields are the private fields of \<^verbatim>\<open>Manager\<close> (lines 33-43, without the
  leading underscore). The others are what the manager reads from its collaborators:
  \<^verbatim>\<open>_server.isRunning\<close>, \<^verbatim>\<open>_serverTaskProvider.isRunning\<close>, the ports of the connection
  manager, the settings store, and the timers the host holds for \<^verbatim>\<open>setTimeout\<close>
  (handle and delay in milliseconds).
\<close>

record manager =
  currentPanel :: "browserPreview option"
  previewActive :: bool
  currentTimeout :: "nat option"
  notifiedAboutLooseFiles :: bool
  pendingLaunchInfo :: "launchInfo option"
  runTaskWithExternalPreview :: bool
  serverIsRunning :: bool
  taskIsRunning :: bool
  httpPort :: nat
  pendingPort :: nat
  config :: settings
  timers :: "(nat \<times> int) list"
  nextTimer :: nat
  nextPanel :: nat
  effects :: "effect list"

text \<open>
  The answers of the collaborators that the manager does not influence: the constant
  \<^verbatim>\<open>HOST\<close>, the workspace manager, the endpoint manager, the result of
  \<^verbatim>\<open>Server.openServer(port)\<close> and the URI that \<^verbatim>\<open>resolveExternalHTTPUri\<close> resolves to.
  Their code is outside \<^verbatim>\<open>manager.ts\<close>, so they are parameters.
\<close>

record env =
  HOST :: string
  workspace :: "string option"
  absPathInDefaultWorkspace :: "string \<Rightarrow> bool"
  absPathInAnyWorkspace :: "string \<Rightarrow> bool"
  getFileRelativeToDefaultWorkspace :: "string \<Rightarrow> string"
  encodeLooseFileEndpoint :: "string \<Rightarrow> string"
  server_openServer_result :: "nat \<Rightarrow> bool"
  resolveExternalHTTPUri :: "nat \<Rightarrow> uri"

subsection \<open>Collaborators and host functions\<close>

definition emit :: "effect \<Rightarrow> manager \<Rightarrow> manager" where
  "emit e s = s\<lparr>effects := effects s @ [e]\<rparr>"

text \<open>
  Modelled from the spec: \<^verbatim>\<open>Server.openServer\<close> is not in \<^verbatim>\<open>manager.ts\<close>. The spec gives
  \<^verbatim>\<open>start(port) -> success\<close> and says that the connected event arrives asynchronously
  after it returns, so the request is recorded, the answer is the environment's and
  \<^verbatim>\<open>isRunning\<close> stays as it is until the server connects.
\<close>

definition server_openServer :: "env \<Rightarrow> nat \<Rightarrow> manager \<Rightarrow> bool \<times> manager" where
  "server_openServer E port s = (server_openServer_result E port, emit (ServerOpenServer port) s)"

text \<open>
  Modelled from the spec: \<^verbatim>\<open>Server.closeServer\<close> is not in \<^verbatim>\<open>manager.ts\<close>; an explicit
  stop takes the run state from Running to Stopped.
\<close>

definition server_closeServer :: "manager \<Rightarrow> manager" where
  "server_closeServer s = (emit ServerCloseServer s)\<lparr>serverIsRunning := False\<rparr>"

text \<open>
  \<^verbatim>\<open>setTimeout\<close> and \<^verbatim>\<open>clearTimeout\<close> of the host: a new timer gets a fresh handle;
  clearing removes the timer with that handle, if it is still pending.
\<close>

definition setTimeout :: "int \<Rightarrow> manager \<Rightarrow> nat \<times> manager" where
  "setTimeout ms s =
     (nextTimer s, s\<lparr>timers := timers s @ [(nextTimer s, ms)], nextTimer := Suc (nextTimer s)\<rparr>)"

definition clearTimeout :: "nat \<Rightarrow> manager \<Rightarrow> manager" where
  "clearTimeout h s = s\<lparr>timers := filter (\<lambda>t. fst t \<noteq> h) (timers s)\<rparr>"

text \<open>\<^verbatim>\<open>createWebviewPanel\<close> of the host returns a new panel.\<close>

definition createWebviewPanel :: "manager \<Rightarrow> webviewPanel \<times> manager" where
  "createWebviewPanel s =
     (WebviewPanel (nextPanel s), (emit CreateWebviewPanel s)\<lparr>nextPanel := Suc (nextPanel s)\<rparr>)"

text \<open>A number inside a template string is printed in decimal.\<close>

fun string_of_nat :: "nat \<Rightarrow> string" where
  "string_of_nat n =
     (if n < 10 then [char_of (48 + n)]
      else string_of_nat (n div 10) @ [char_of (48 + n mod 10)])"

text \<open>\<^verbatim>\<open>.replace(/\\/g, '/')\<close>: every backslash (code 0x5C) becomes a slash.\<close>

definition replaceBackslashes :: "string \<Rightarrow> string" where
  "replaceBackslashes str = map (\<lambda>c. if c = CHR 0x5C then CHR ''/'' else c) str"

subsection \<open>Loose files (lines 349-400)\<close>

definition encodeEndpoint :: "env \<Rightarrow> string \<Rightarrow> string" where
  "encodeEndpoint E location = encodeLooseFileEndpoint E location"

text \<open>
  The continuation of the warning (lines 393-397) runs when the user answers; it is the
  event \<open>WarningMessageAnswered\<close> below.
\<close>

definition notifyLooseFileOpen :: "manager \<Rightarrow> manager" where
  "notifyLooseFileOpen s =
     (let s1 = emit (SendTelemetryEvent ''preview.fileOutOfWorkspace'') s;
          s2 = (if \<not> notifiedAboutLooseFiles s1 \<and> notifyOnOpenLooseFile (config s1)
                then emit ShowWarningMessage s1 else s1)
      in s2\<lparr>notifiedAboutLooseFiles := True\<rparr>)"

definition transformNonRelativeFile :: "env \<Rightarrow> bool \<Rightarrow> string \<Rightarrow> manager \<Rightarrow> string \<times> manager" where
  "transformNonRelativeFile E rel f s =
     (if \<not> rel then
        (if \<not> absPathInDefaultWorkspace E f then
           (let s1 = (if \<not> absPathInAnyWorkspace E f then notifyLooseFileOpen s else s)
            in (encodeEndpoint E f, s1))
         else (getFileRelativeToDefaultWorkspace E f, s))
      else (f, s))"

subsection \<open>Opening and closing the server (lines 225-257)\<close>

text \<open>
  With \<open>fromTask\<close> and a running server, the notification is the continuation of the promise
  \<^verbatim>\<open>resolveExternalHTTPUri()\<close>; nothing else follows it in any caller, so it is recorded at
  the call.
\<close>

definition openServer :: "env \<Rightarrow> bool \<Rightarrow> manager \<Rightarrow> bool \<times> manager" where
  "openServer E fromTask s =
     (if \<not> serverIsRunning s then server_openServer E (httpPort s) s
      else if fromTask then
        (True, emit (TaskServerStarted (resolveExternalHTTPUri E (httpPort s)) STARTED_BY_EMBEDDED_PREV) s)
      else (True, s))"

text \<open>
  \<^verbatim>\<open>currentPanel.close()\<close> is recorded as \<open>PanelClose\<close>; the dispose notification of the panel
  reaches the manager as the event \<open>PanelDisposed\<close> below.
\<close>

definition closeServer :: "manager \<Rightarrow> bool \<times> manager" where
  "closeServer s =
     (if serverIsRunning s then
        (let s1 = server_closeServer s;
             s2 = (if currentPanel s1 \<noteq> None then emit PanelClose s1 else s1);
             s3 = (if taskIsRunning s2 then emit (TaskServerStop True) s2 else s2)
         in (True, emit ConnectionDisconnected s3))
      else (False, s))"

subsection \<open>Launching a file (lines 259-347)\<close>

definition launchFileInExternalBrowser :: "env \<Rightarrow> string \<Rightarrow> bool \<Rightarrow> manager \<Rightarrow> manager" where
  "launchFileInExternalBrowser E f rel s =
     (case transformNonRelativeFile E rel f s of (t, s1) \<Rightarrow>
        (let relFile = replaceBackslashes t
         in emit (OpenExternal (''http://'' @ HOST E @ '':'' @ string_of_nat (httpPort s1) @ relFile)) s1))"

definition startEmbeddedPreview :: "webviewPanel \<Rightarrow> string \<Rightarrow> manager \<Rightarrow> manager" where
  "startEmbeddedPreview pnl f s =
     (let s1 = (case currentTimeout s of Some h \<Rightarrow> clearTimeout h s | None \<Rightarrow> s);
          s2 = (emit (NewBrowserPreview f pnl) s1)\<lparr>currentPanel := Some \<lparr>bp_file = f, bp_panel = pnl\<rparr>\<rparr>
      in s2\<lparr>previewActive := True\<rparr>)"

definition launchFileInEmbeddedPreview ::
    "env \<Rightarrow> string \<Rightarrow> bool \<Rightarrow> webviewPanel option \<Rightarrow> manager \<Rightarrow> manager" where
  "launchFileInEmbeddedPreview E f rel pnl s =
     (case transformNonRelativeFile E rel f s of (t, s1) \<Rightarrow>
        (if currentPanel s1 \<noteq> None then emit (PanelReveal t) s1
         else (case pnl of
                 Some p \<Rightarrow> startEmbeddedPreview p t s1
               | None \<Rightarrow> (case createWebviewPanel s1 of (p, s2) \<Rightarrow> startEmbeddedPreview p t s2))))"

text \<open>The handler registered with \<^verbatim>\<open>currentPanel.onShiftToExternalBrowser\<close> (lines 317-324).\<close>

definition onShiftToExternalBrowser :: "manager \<Rightarrow> manager" where
  "onShiftToExternalBrowser s =
     (if \<not> taskIsRunning s \<and> runTaskWithExternalPreview s then emit (TaskExtRunTask True) s else s)"

text \<open>The handler registered with \<^verbatim>\<open>currentPanel.onDispose\<close> (lines 328-345).\<close>

definition onDispose :: "manager \<Rightarrow> manager" where
  "onDispose s =
     (let s1 = s\<lparr>currentPanel := None\<rparr>;
          closeServerDelay = serverKeepAliveAfterEmbeddedPreviewClose (config s1)
      in case setTimeout \<lfloor>closeServerDelay * 1000 * 60\<rfloor> s1 of (h, s2) \<Rightarrow>
           s2\<lparr>currentTimeout := Some h\<rparr>)"

text \<open>The callback given to \<^verbatim>\<open>setTimeout\<close> (lines 333-344).\<close>

definition onTimeout :: "env \<Rightarrow> manager \<Rightarrow> manager" where
  "onTimeout E s =
     (let s1 = (if serverIsRunning s \<and> \<not> taskIsRunning s \<and> workspace E \<noteq> None
                   \<and> runTaskWithExternalPreview s
                then snd (closeServer s) else s)
      in s1\<lparr>previewActive := False\<rparr>)"

subsection \<open>The public entry points (lines 174-223)\<close>

definition dispose :: "manager \<Rightarrow> manager" where
  "dispose s = server_closeServer s"

definition createOrShowEmbeddedPreview ::
    "env \<Rightarrow> webviewPanel option \<Rightarrow> string \<Rightarrow> bool \<Rightarrow> manager \<Rightarrow> manager" where
  "createOrShowEmbeddedPreview E pnl f rel s =
     (if \<not> serverIsRunning s then
        snd (openServer E False
               (s\<lparr>pendingLaunchInfo := Some \<lparr>external = False, file = f, relative = rel, panel = pnl\<rparr>\<rparr>))
      else launchFileInEmbeddedPreview E f rel pnl s)"

text \<open>
  \<^verbatim>\<open>showPreviewInBrowser\<close> has no return value: the \<^verbatim>\<open>return;\<close> after a failed start
  (lines 216-218) is the last statement of its branch.
\<close>

definition showPreviewInBrowser :: "env \<Rightarrow> string \<Rightarrow> bool \<Rightarrow> manager \<Rightarrow> manager" where
  "showPreviewInBrowser E f rel s =
     (if \<not> taskIsRunning s then
        (let s1 = (if \<not> serverIsRunning s
                   then s\<lparr>pendingLaunchInfo := Some \<lparr>external = True, file = f, relative = rel, panel = None\<rparr>\<rparr>
                   else launchFileInExternalBrowser E f rel s)
         in if workspace E \<noteq> None \<and> runTaskWithExternalPreview s1
            then emit (TaskExtRunTask (browserPreviewLaunchServerLogging (config s1))) s1
            else (case openServer E False s1 of (serverOn, s2) \<Rightarrow>
                    (if \<not> serverOn then s2 else s2)))
      else launchFileInExternalBrowser E f rel s)"

subsection \<open>The handlers registered in the constructor (lines 99-171)\<close>

definition onNewReqProcessed :: "serverMsg \<Rightarrow> manager \<Rightarrow> manager" where
  "onNewReqProcessed e s = emit (TaskSendServerInfoToTerminal e) s"

definition onRequestToOpenServer :: "env \<Rightarrow> manager \<Rightarrow> manager" where
  "onRequestToOpenServer E s = snd (openServer E True s)"

definition onRequestToCloseServer :: "manager \<Rightarrow> manager" where
  "onRequestToCloseServer s =
     (if previewActive s then emit (TaskServerStop False) s
      else emit (TaskServerStop True) (snd (closeServer s)))"

definition onConnected :: "env \<Rightarrow> uri \<Rightarrow> manager \<Rightarrow> manager" where
  "onConnected E httpURI s =
     (let s1 = emit (TaskServerStarted httpURI JUST_STARTED) s
      in case pendingLaunchInfo s1 of
           None \<Rightarrow> s1
         | Some li \<Rightarrow>
             (let s2 = (if external li
                        then launchFileInExternalBrowser E (file li) (relative li) s1
                        else launchFileInEmbeddedPreview E (file li) (relative li) (panel li) s1)
              in s2\<lparr>pendingLaunchInfo := None\<rparr>))"

text \<open>
  \<open>affects\<close> is \<^verbatim>\<open>e.affectsConfiguration(SETTINGS_SECTION_ID)\<close>; the settings store already
  holds the new settings when the handler runs.
\<close>

definition onDidChangeConfiguration :: "bool \<Rightarrow> manager \<Rightarrow> manager" where
  "onDidChangeConfiguration affects s =
     (if affects then
        (emit ServerUpdateConfigurations s)
          \<lparr>pendingPort := portNumber (config s),
           runTaskWithExternalPreview := setting_runTaskWithExternalPreview (config s)\<rparr>
      else s)"

text \<open>
  \<open>viewColumn\<close> is \<^verbatim>\<open>currentPanel.panel.viewColumn\<close>, which the host owns;
  \<^verbatim>\<open>vscode.ViewColumn.One\<close> is 1.
\<close>

definition onRequestOpenEditorToSide :: "uri \<Rightarrow> int option \<Rightarrow> manager \<Rightarrow> manager" where
  "onRequestOpenEditorToSide u viewColumn s =
     (if previewActive s \<and> currentPanel s \<noteq> None then
        (let avoidColumn = (case viewColumn of Some c \<Rightarrow> c | None \<Rightarrow> 1);
             column = (if avoidColumn = 1 then avoidColumn + 1 else avoidColumn - 1)
         in emit (VscodeOpen u (Some column)) s)
      else emit (VscodeOpen u None) s)"

subsection \<open>The manager as a transition system\<close>

text \<open>
  The constructor (lines 57-98): the fields get their initialisers, the port and the
  run-as-task flag come from the settings, nothing is running.
\<close>

definition newManager :: "settings \<Rightarrow> manager" where
  "newManager cfg =
     \<lparr>currentPanel = None, previewActive = False, currentTimeout = None,
      notifiedAboutLooseFiles = False, pendingLaunchInfo = None,
      runTaskWithExternalPreview = setting_runTaskWithExternalPreview cfg,
      serverIsRunning = False, taskIsRunning = False,
      httpPort = portNumber cfg, pendingPort = portNumber cfg, config = cfg,
      timers = [], nextTimer = 0, nextPanel = 0, effects = []\<rparr>"

text \<open>
  What can happen to a manager: a call of a public method, or a callback. The last three
  events are moves of the environment alone: the task provider starts or stops running,
  the server terminates by itself, the user answers the loose-file warning.
\<close>

datatype event =
    CreateOrShowEmbeddedPreview "webviewPanel option" string bool
  | ShowPreviewInBrowser string bool
  | OpenServer bool
  | CloseServer
  | Dispose
  | NewReqProcessed serverMsg
  | RequestToOpenServer
  | RequestToCloseServer
  | RequestOpenEditorToSide uri "int option"
  | ServerConnected uri nat
  | ConfigurationChanged settings bool
  | PanelDisposed
  | ShiftToExternalBrowser
  | TimeoutFired nat
  | TaskRunningChanged bool
  | ServerTerminated
  | WarningMessageAnswered bool

text \<open>
  Modelled from the spec: when the server connects, it reports Running and the connection
  manager takes the port of the connection, then fires \<^verbatim>\<open>onConnected\<close>; the code of both
  is outside \<^verbatim>\<open>manager.ts\<close>.

  An event that the host cannot deliver leaves the manager as it is: a panel is disposed
  or shifted only while it is the current one (the handlers are registered on the
  \<^verbatim>\<open>BrowserPreview\<close> that \<open>currentPanel\<close> holds, and a dispose notification fires once), and
  a timer fires only while it is pending.
\<close>

fun step :: "env \<Rightarrow> event \<Rightarrow> manager \<Rightarrow> manager" where
  "step E (CreateOrShowEmbeddedPreview pnl f rel) s = createOrShowEmbeddedPreview E pnl f rel s"
| "step E (ShowPreviewInBrowser f rel) s = showPreviewInBrowser E f rel s"
| "step E (OpenServer fromTask) s = snd (openServer E fromTask s)"
| "step E CloseServer s = snd (closeServer s)"
| "step E Dispose s = dispose s"
| "step E (NewReqProcessed msg) s = onNewReqProcessed msg s"
| "step E RequestToOpenServer s = onRequestToOpenServer E s"
| "step E RequestToCloseServer s = onRequestToCloseServer s"
| "step E (RequestOpenEditorToSide u viewColumn) s = onRequestOpenEditorToSide u viewColumn s"
| "step E (ServerConnected httpURI port) s =
     onConnected E httpURI (s\<lparr>serverIsRunning := True, httpPort := port\<rparr>)"
| "step E (ConfigurationChanged cfg affects) s = onDidChangeConfiguration affects (s\<lparr>config := cfg\<rparr>)"
| "step E PanelDisposed s = (if currentPanel s \<noteq> None then onDispose s else s)"
| "step E ShiftToExternalBrowser s = (if currentPanel s \<noteq> None then onShiftToExternalBrowser s else s)"
| "step E (TimeoutFired h) s =
     (if h \<in> set (map fst (timers s)) then onTimeout E (clearTimeout h s) else s)"
| "step E (TaskRunningChanged b) s = s\<lparr>taskIsRunning := b\<rparr>"
| "step E ServerTerminated s = s\<lparr>serverIsRunning := False\<rparr>"
| "step E (WarningMessageAnswered dontShowAgain) s =
     (if dontShowAgain then s\<lparr>config := (config s)\<lparr>notifyOnOpenLooseFile := False\<rparr>\<rparr> else s)"

fun run :: "env \<Rightarrow> event list \<Rightarrow> manager \<Rightarrow> manager" where
  "run E [] s = s"
| "run E (e # es) s = run E es (step E e s)"

subsection \<open>Observations on the recorded calls\<close>

text \<open>
  Kinds of recorded calls and how often each occurs: start requests to the server, previews
  created, \<open>JUST_STARTED\<close> notices, prompts shown, telemetry events, stops of the server.
  Below them, kinds of events.
\<close>

fun isStartRequest :: "effect \<Rightarrow> bool" where
  "isStartRequest (ServerOpenServer port) = True"
| "isStartRequest _ = False"

fun isNewSession :: "effect \<Rightarrow> bool" where
  "isNewSession (NewBrowserPreview f pnl) = True"
| "isNewSession _ = False"

fun isJustStarted :: "effect \<Rightarrow> bool" where
  "isJustStarted (TaskServerStarted u JUST_STARTED) = True"
| "isJustStarted _ = False"

fun isPrompt :: "effect \<Rightarrow> bool" where
  "isPrompt ShowWarningMessage = True"
| "isPrompt _ = False"

fun isTelemetry :: "effect \<Rightarrow> bool" where
  "isTelemetry (SendTelemetryEvent name) = True"
| "isTelemetry _ = False"

fun isServerClose :: "effect \<Rightarrow> bool" where
  "isServerClose ServerCloseServer = True"
| "isServerClose _ = False"

definition startRequests :: "manager \<Rightarrow> nat" where
  "startRequests s = length (filter isStartRequest (effects s))"

definition sessionsCreated :: "manager \<Rightarrow> nat" where
  "sessionsCreated s = length (filter isNewSession (effects s))"

definition justStartedNotices :: "manager \<Rightarrow> nat" where
  "justStartedNotices s = length (filter isJustStarted (effects s))"

definition promptsShown :: "manager \<Rightarrow> nat" where
  "promptsShown s = length (filter isPrompt (effects s))"

definition telemetryEvents :: "manager \<Rightarrow> nat" where
  "telemetryEvents s = length (filter isTelemetry (effects s))"

definition serverStops :: "manager \<Rightarrow> nat" where
  "serverStops s = length (filter isServerClose (effects s))"

fun isLaunchRequest :: "event \<Rightarrow> bool" where
  "isLaunchRequest (CreateOrShowEmbeddedPreview pnl f rel) = True"
| "isLaunchRequest (ShowPreviewInBrowser f rel) = True"
| "isLaunchRequest _ = False"

fun isServerConnected :: "event \<Rightarrow> bool" where
  "isServerConnected (ServerConnected u port) = True"
| "isServerConnected _ = False"

fun isTimeoutFired :: "event \<Rightarrow> bool" where
  "isTimeoutFired (TimeoutFired h) = True"
| "isTimeoutFired _ = False"

text \<open>A request for the embedded preview and a connection of the server, as events.\<close>

fun requestEmbedded :: "webviewPanel option \<times> string \<times> bool \<Rightarrow> event" where
  "requestEmbedded (pnl, f, rel) = CreateOrShowEmbeddedPreview pnl f rel"

fun connected :: "uri \<times> nat \<Rightarrow> event" where
  "connected (u, port) = ServerConnected u port"

subsection \<open>Invariants of the reachable states\<close>

text \<open>
  While a preview exists no shutdown timer is pending and \<open>previewActive\<close> is set; a pending
  timer is the one whose handle \<open>currentTimeout\<close> holds.
\<close>

definition timer_inv :: "manager \<Rightarrow> bool" where
  "timer_inv s \<longleftrightarrow>
     (currentPanel s \<noteq> None \<longrightarrow> timers s = [] \<and> previewActive s) \<and>
     (timers s = [] \<or> (\<exists>h d. timers s = [(h, d)] \<and> currentTimeout s = Some h))"

text \<open>A launch is pending only while the server is not running.\<close>

definition pending_inv :: "manager \<Rightarrow> bool" where
  "pending_inv s \<longleftrightarrow> (pendingLaunchInfo s \<noteq> None \<longrightarrow> \<not> serverIsRunning s)"

subsection \<open>A sample configuration\<close>

text \<open>
  Settings and an environment to evaluate the manager on: the workspace is \<^verbatim>\<open>/ws\<close>, a second
  known workspace is \<^verbatim>\<open>/other\<close>, loose files get the prefix \<^verbatim>\<open>/endpoint_unsaved\<close>.
\<close>

definition sampleSettings :: settings where
  "sampleSettings =
     \<lparr>portNumber = 3000, setting_runTaskWithExternalPreview = True,
      serverKeepAliveAfterEmbeddedPreviewClose = 3, notifyOnOpenLooseFile = True,
      browserPreviewLaunchServerLogging = False\<rparr>"

definition sampleEnv :: env where
  "sampleEnv =
     \<lparr>HOST = ''127.0.0.1'', workspace = Some ''/ws'',
      absPathInDefaultWorkspace = (\<lambda>f. take 4 f = ''/ws/''),
      absPathInAnyWorkspace = (\<lambda>f. take 4 f = ''/ws/'' \<or> take 7 f = ''/other/''),
      getFileRelativeToDefaultWorkspace = drop 3,
      encodeLooseFileEndpoint = (\<lambda>f. ''/endpoint_unsaved'' @ f),
      server_openServer_result = (\<lambda>port. True),
      resolveExternalHTTPUri = (\<lambda>port. ''http://127.0.0.1:'' @ string_of_nat port)\<rparr>"

text \<open>A manager whose server runs, with a preview open and the task running.\<close>

definition sampleRunning :: manager where
  "sampleRunning =
     run sampleEnv
       [CreateOrShowEmbeddedPreview None ''/index.html'' True,
        ServerConnected ''http://127.0.0.1:3000'' 3000,
        TaskRunningChanged True]
       (newManager sampleSettings)"

text \<open>The same settings with the loose-file warning switched off.\<close>

definition quietSettings :: settings where
  "quietSettings = sampleSettings\<lparr>notifyOnOpenLooseFile := False\<rparr>"

text \<open>
  The setting is switched on again, the server connects, and two loose files are opened,
  one in the panel and one in the browser.
\<close>

definition looseFileLater :: "event list" where
  "looseFileLater =
     [ConfigurationChanged sampleSettings True,
      ServerConnected ''http://127.0.0.1:3000'' 3000,
      CreateOrShowEmbeddedPreview None ''/a/loose.html'' False,
      ShowPreviewInBrowser ''/a/other.html'' False]"


text \<open>An environment in which the server fails to start, and settings without run-as-task.\<close>

definition failEnv :: env where
  "failEnv = sampleEnv\<lparr>server_openServer_result := (\<lambda>port. False)\<rparr>"

definition directSettings :: settings where
  "directSettings = sampleSettings\<lparr>setting_runTaskWithExternalPreview := False\<rparr>"

text \<open>
  The preview is opened while the server is stopped and the server connects; then the panel
  is disposed.
\<close>

definition previewEvents :: "event list" where
  "previewEvents =
     [CreateOrShowEmbeddedPreview None ''/index.html'' True,
      ServerConnected ''http://127.0.0.1:3000'' 3000]"

definition samplePreview :: manager where
  "samplePreview = run sampleEnv previewEvents (newManager sampleSettings)"

definition sampleDisposed :: manager where
  "sampleDisposed = run sampleEnv (previewEvents @ [PanelDisposed]) (newManager sampleSettings)"

section \<open>Properties\<close>

subsection \<open>What each operation leaves unchanged\<close>

lemma emit_fields [simp]:
  "currentPanel (emit e s) = currentPanel s"
  "previewActive (emit e s) = previewActive s"
  "currentTimeout (emit e s) = currentTimeout s"
  "notifiedAboutLooseFiles (emit e s) = notifiedAboutLooseFiles s"
  "pendingLaunchInfo (emit e s) = pendingLaunchInfo s"
  "runTaskWithExternalPreview (emit e s) = runTaskWithExternalPreview s"
  "serverIsRunning (emit e s) = serverIsRunning s"
  "taskIsRunning (emit e s) = taskIsRunning s"
  "httpPort (emit e s) = httpPort s"
  "pendingPort (emit e s) = pendingPort s"
  "config (emit e s) = config s"
  "timers (emit e s) = timers s"
  "nextTimer (emit e s) = nextTimer s"
  "nextPanel (emit e s) = nextPanel s"
  "effects (emit e s) = effects s @ [e]"
  by (simp_all add: emit_def)

lemma notifyLooseFileOpen_fields [simp]:
  "currentPanel (notifyLooseFileOpen s) = currentPanel s"
  "previewActive (notifyLooseFileOpen s) = previewActive s"
  "currentTimeout (notifyLooseFileOpen s) = currentTimeout s"
  "notifiedAboutLooseFiles (notifyLooseFileOpen s) = True"
  "pendingLaunchInfo (notifyLooseFileOpen s) = pendingLaunchInfo s"
  "runTaskWithExternalPreview (notifyLooseFileOpen s) = runTaskWithExternalPreview s"
  "serverIsRunning (notifyLooseFileOpen s) = serverIsRunning s"
  "taskIsRunning (notifyLooseFileOpen s) = taskIsRunning s"
  "httpPort (notifyLooseFileOpen s) = httpPort s"
  "pendingPort (notifyLooseFileOpen s) = pendingPort s"
  "config (notifyLooseFileOpen s) = config s"
  "timers (notifyLooseFileOpen s) = timers s"
  "nextTimer (notifyLooseFileOpen s) = nextTimer s"
  "nextPanel (notifyLooseFileOpen s) = nextPanel s"
  by (simp_all add: notifyLooseFileOpen_def Let_def)

lemma notifyLooseFileOpen_effects:
  "effects (notifyLooseFileOpen s) =
     effects s @ SendTelemetryEvent ''preview.fileOutOfWorkspace'' #
       (if \<not> notifiedAboutLooseFiles s \<and> notifyOnOpenLooseFile (config s)
        then [ShowWarningMessage] else [])"
  by (simp add: notifyLooseFileOpen_def Let_def)

lemma transformNonRelativeFile_fields [simp]:
  "currentPanel (snd (transformNonRelativeFile E rel f s)) = currentPanel s"
  "previewActive (snd (transformNonRelativeFile E rel f s)) = previewActive s"
  "currentTimeout (snd (transformNonRelativeFile E rel f s)) = currentTimeout s"
  "pendingLaunchInfo (snd (transformNonRelativeFile E rel f s)) = pendingLaunchInfo s"
  "runTaskWithExternalPreview (snd (transformNonRelativeFile E rel f s)) = runTaskWithExternalPreview s"
  "serverIsRunning (snd (transformNonRelativeFile E rel f s)) = serverIsRunning s"
  "taskIsRunning (snd (transformNonRelativeFile E rel f s)) = taskIsRunning s"
  "httpPort (snd (transformNonRelativeFile E rel f s)) = httpPort s"
  "pendingPort (snd (transformNonRelativeFile E rel f s)) = pendingPort s"
  "config (snd (transformNonRelativeFile E rel f s)) = config s"
  "timers (snd (transformNonRelativeFile E rel f s)) = timers s"
  "nextTimer (snd (transformNonRelativeFile E rel f s)) = nextTimer s"
  "nextPanel (snd (transformNonRelativeFile E rel f s)) = nextPanel s"
  by (simp_all add: transformNonRelativeFile_def Let_def)

lemma launchFileInExternalBrowser_fields [simp]:
  "currentPanel (launchFileInExternalBrowser E f rel s) = currentPanel s"
  "previewActive (launchFileInExternalBrowser E f rel s) = previewActive s"
  "currentTimeout (launchFileInExternalBrowser E f rel s) = currentTimeout s"
  "pendingLaunchInfo (launchFileInExternalBrowser E f rel s) = pendingLaunchInfo s"
  "runTaskWithExternalPreview (launchFileInExternalBrowser E f rel s) = runTaskWithExternalPreview s"
  "serverIsRunning (launchFileInExternalBrowser E f rel s) = serverIsRunning s"
  "taskIsRunning (launchFileInExternalBrowser E f rel s) = taskIsRunning s"
  "httpPort (launchFileInExternalBrowser E f rel s) = httpPort s"
  "pendingPort (launchFileInExternalBrowser E f rel s) = pendingPort s"
  "config (launchFileInExternalBrowser E f rel s) = config s"
  "timers (launchFileInExternalBrowser E f rel s) = timers s"
  "nextTimer (launchFileInExternalBrowser E f rel s) = nextTimer s"
  "nextPanel (launchFileInExternalBrowser E f rel s) = nextPanel s"
  by (simp_all add: launchFileInExternalBrowser_def Let_def split_def)

lemma launchFileInEmbeddedPreview_fields [simp]:
  "currentTimeout (launchFileInEmbeddedPreview E f rel pnl s) = currentTimeout s"
  "pendingLaunchInfo (launchFileInEmbeddedPreview E f rel pnl s) = pendingLaunchInfo s"
  "runTaskWithExternalPreview (launchFileInEmbeddedPreview E f rel pnl s) = runTaskWithExternalPreview s"
  "serverIsRunning (launchFileInEmbeddedPreview E f rel pnl s) = serverIsRunning s"
  "taskIsRunning (launchFileInEmbeddedPreview E f rel pnl s) = taskIsRunning s"
  "httpPort (launchFileInEmbeddedPreview E f rel pnl s) = httpPort s"
  "pendingPort (launchFileInEmbeddedPreview E f rel pnl s) = pendingPort s"
  "config (launchFileInEmbeddedPreview E f rel pnl s) = config s"
  "nextTimer (launchFileInEmbeddedPreview E f rel pnl s) = nextTimer s"
  by (simp_all add: launchFileInEmbeddedPreview_def startEmbeddedPreview_def clearTimeout_def
      createWebviewPanel_def Let_def split_def split: option.splits)

lemma openServer_fields [simp]:
  "currentPanel (snd (openServer E fromTask s)) = currentPanel s"
  "previewActive (snd (openServer E fromTask s)) = previewActive s"
  "currentTimeout (snd (openServer E fromTask s)) = currentTimeout s"
  "notifiedAboutLooseFiles (snd (openServer E fromTask s)) = notifiedAboutLooseFiles s"
  "pendingLaunchInfo (snd (openServer E fromTask s)) = pendingLaunchInfo s"
  "runTaskWithExternalPreview (snd (openServer E fromTask s)) = runTaskWithExternalPreview s"
  "serverIsRunning (snd (openServer E fromTask s)) = serverIsRunning s"
  "taskIsRunning (snd (openServer E fromTask s)) = taskIsRunning s"
  "httpPort (snd (openServer E fromTask s)) = httpPort s"
  "pendingPort (snd (openServer E fromTask s)) = pendingPort s"
  "config (snd (openServer E fromTask s)) = config s"
  "timers (snd (openServer E fromTask s)) = timers s"
  "nextTimer (snd (openServer E fromTask s)) = nextTimer s"
  "nextPanel (snd (openServer E fromTask s)) = nextPanel s"
  by (simp_all add: openServer_def server_openServer_def)

lemma closeServer_fields [simp]:
  "currentPanel (snd (closeServer s)) = currentPanel s"
  "previewActive (snd (closeServer s)) = previewActive s"
  "currentTimeout (snd (closeServer s)) = currentTimeout s"
  "notifiedAboutLooseFiles (snd (closeServer s)) = notifiedAboutLooseFiles s"
  "pendingLaunchInfo (snd (closeServer s)) = pendingLaunchInfo s"
  "runTaskWithExternalPreview (snd (closeServer s)) = runTaskWithExternalPreview s"
  "serverIsRunning (snd (closeServer s)) = False"
  "taskIsRunning (snd (closeServer s)) = taskIsRunning s"
  "httpPort (snd (closeServer s)) = httpPort s"
  "pendingPort (snd (closeServer s)) = pendingPort s"
  "config (snd (closeServer s)) = config s"
  "timers (snd (closeServer s)) = timers s"
  "nextTimer (snd (closeServer s)) = nextTimer s"
  "nextPanel (snd (closeServer s)) = nextPanel s"
  by (simp_all add: closeServer_def server_closeServer_def Let_def)

lemmas handler_defs = onShiftToExternalBrowser_def onDispose_def onTimeout_def
  dispose_def createOrShowEmbeddedPreview_def showPreviewInBrowser_def onRequestToOpenServer_def
  onRequestToCloseServer_def onConnected_def onDidChangeConfiguration_def
  onRequestOpenEditorToSide_def onNewReqProcessed_def server_closeServer_def setTimeout_def
  clearTimeout_def

subsection \<open>The invariants hold in every reachable state\<close>

lemma timer_inv_launchEmbedded:
  "timer_inv s \<Longrightarrow> timer_inv (launchFileInEmbeddedPreview E f rel pnl s)"
  by (auto simp: timer_inv_def launchFileInEmbeddedPreview_def startEmbeddedPreview_def
      clearTimeout_def createWebviewPanel_def Let_def split_def filter_empty_conv split: option.splits)

lemma timer_inv_createOrShow:
  assumes "timer_inv s"
  shows "timer_inv (createOrShowEmbeddedPreview E pnl f rel s)"
proof (cases "serverIsRunning s")
  case True
  then show ?thesis
    using timer_inv_launchEmbedded[OF assms] by (simp add: createOrShowEmbeddedPreview_def)
next
  case False
  then show ?thesis
    using assms by (simp add: createOrShowEmbeddedPreview_def timer_inv_def)
qed

lemma timer_inv_onConnected:
  assumes "timer_inv s"
  shows "timer_inv (onConnected E u s)"
proof -
  have b: "timer_inv (emit (TaskServerStarted u JUST_STARTED) s)"
    using assms by (simp add: timer_inv_def)
  show ?thesis
  proof (cases "pendingLaunchInfo s")
    case None
    then show ?thesis using b by (simp add: onConnected_def Let_def)
  next
    case (Some li)
    show ?thesis
    proof (cases "external li")
      case True
      then show ?thesis using b Some by (simp add: onConnected_def Let_def timer_inv_def)
    next
      case False
      then show ?thesis using timer_inv_launchEmbedded[OF b, of E "file li" "relative li" "panel li"] Some
        by (simp add: onConnected_def Let_def timer_inv_def)
    qed
  qed
qed

lemma timer_inv_step: "timer_inv s \<Longrightarrow> timer_inv (step E e s)"
proof (cases e)
  case (CreateOrShowEmbeddedPreview pnl f rel)
  assume "timer_inv s"
  then show ?thesis using timer_inv_createOrShow by (simp add: CreateOrShowEmbeddedPreview)
next
  case (ServerConnected u p)
  assume a: "timer_inv s"
  then have "timer_inv (s\<lparr>serverIsRunning := True, httpPort := p\<rparr>)"
    by (simp add: timer_inv_def)
  then show ?thesis using timer_inv_onConnected by (simp add: ServerConnected)
qed (auto simp: timer_inv_def handler_defs Let_def split_def filter_empty_conv)

lemma pending_inv_step: "pending_inv s \<Longrightarrow> pending_inv (step E e s)"
  by (cases e) (auto simp: pending_inv_def handler_defs Let_def split_def split: option.splits)

subsection \<open>The calls each operation records\<close>

lemma transformNonRelativeFile_result:
  "fst (transformNonRelativeFile E rel f s) =
     (if rel then f
      else if absPathInDefaultWorkspace E f then getFileRelativeToDefaultWorkspace E f
      else encodeLooseFileEndpoint E f)"
  by (simp add: transformNonRelativeFile_def encodeEndpoint_def Let_def)

lemma transformNonRelativeFile_notified:
  "notifiedAboutLooseFiles (snd (transformNonRelativeFile E rel f s)) =
     (notifiedAboutLooseFiles s \<or>
      (\<not> rel \<and> \<not> absPathInDefaultWorkspace E f \<and> \<not> absPathInAnyWorkspace E f))"
  by (simp add: transformNonRelativeFile_def Let_def)

lemma transformNonRelativeFile_effects:
  "effects (snd (transformNonRelativeFile E rel f s)) =
     (if \<not> rel \<and> \<not> absPathInDefaultWorkspace E f \<and> \<not> absPathInAnyWorkspace E f
      then effects (notifyLooseFileOpen s) else effects s)"
  by (simp add: transformNonRelativeFile_def Let_def)

lemma filter_transformNonRelativeFile:
  assumes "\<not> P (SendTelemetryEvent ''preview.fileOutOfWorkspace'')"
    and "notifiedAboutLooseFiles s \<or> \<not> P ShowWarningMessage"
  shows "filter P (effects (snd (transformNonRelativeFile E rel f s))) = filter P (effects s)"
  using assms by (auto simp: transformNonRelativeFile_effects notifyLooseFileOpen_effects)

lemma launchFileInExternalBrowser_notified:
  "notifiedAboutLooseFiles s \<Longrightarrow> notifiedAboutLooseFiles (launchFileInExternalBrowser E f rel s)"
  by (simp add: launchFileInExternalBrowser_def split_def Let_def transformNonRelativeFile_notified)

lemma filter_launchFileInExternalBrowser:
  assumes "\<not> P (SendTelemetryEvent ''preview.fileOutOfWorkspace'')"
    and "notifiedAboutLooseFiles s \<or> \<not> P ShowWarningMessage"
    and "\<And>u. \<not> P (OpenExternal u)"
  shows "filter P (effects (launchFileInExternalBrowser E f rel s)) = filter P (effects s)"
  using assms
  by (simp add: launchFileInExternalBrowser_def split_def Let_def filter_transformNonRelativeFile)

lemma launchFileInEmbeddedPreview_notified:
  "notifiedAboutLooseFiles s \<Longrightarrow> notifiedAboutLooseFiles (launchFileInEmbeddedPreview E f rel pnl s)"
  by (simp add: launchFileInEmbeddedPreview_def startEmbeddedPreview_def clearTimeout_def
      createWebviewPanel_def split_def Let_def transformNonRelativeFile_notified
      split: option.splits)

lemma filter_launchFileInEmbeddedPreview:
  assumes "\<not> P (SendTelemetryEvent ''preview.fileOutOfWorkspace'')"
    and "notifiedAboutLooseFiles s \<or> \<not> P ShowWarningMessage"
    and "\<And>t. \<not> P (PanelReveal t)" and "\<not> P CreateWebviewPanel"
    and "\<And>t p. \<not> P (NewBrowserPreview t p)"
  shows "filter P (effects (launchFileInEmbeddedPreview E f rel pnl s)) = filter P (effects s)"
  using assms
  by (simp add: launchFileInEmbeddedPreview_def startEmbeddedPreview_def clearTimeout_def
      createWebviewPanel_def split_def Let_def filter_transformNonRelativeFile
      split: option.splits)

lemma openServer_effects:
  "effects (snd (openServer E fromTask s)) =
     (if \<not> serverIsRunning s then effects s @ [ServerOpenServer (httpPort s)]
      else if fromTask
        then effects s @ [TaskServerStarted (resolveExternalHTTPUri E (httpPort s)) STARTED_BY_EMBEDDED_PREV]
      else effects s)"
  by (simp add: openServer_def server_openServer_def)

lemma closeServer_effects:
  "effects (snd (closeServer s)) =
     (if serverIsRunning s
      then effects s @ [ServerCloseServer]
        @ (if currentPanel s \<noteq> None then [PanelClose] else [])
        @ (if taskIsRunning s then [TaskServerStop True] else [])
        @ [ConnectionDisconnected]
      else effects s)"
  by (simp add: closeServer_def server_closeServer_def Let_def)

lemma latch_step:
  assumes "notifiedAboutLooseFiles s"
  shows "notifiedAboutLooseFiles (step E e s) \<and> promptsShown (step E e s) = promptsShown s"
  using assms
  by (cases e)
    (auto simp: promptsShown_def handler_defs Let_def split_def openServer_effects closeServer_effects
      launchFileInExternalBrowser_notified launchFileInEmbeddedPreview_notified
      filter_launchFileInExternalBrowser filter_launchFileInEmbeddedPreview
      split: option.splits)

lemma latch_run:
  "notifiedAboutLooseFiles s \<Longrightarrow>
     notifiedAboutLooseFiles (run E es s) \<and> promptsShown (run E es s) = promptsShown s"
proof (induction es arbitrary: s)
  case Nil
  then show ?case by simp
next
  case (Cons e es)
  from latch_step[OF Cons.prems, of E e] Cons.IH[of "step E e s"]
  show ?case by simp
qed

lemma justStarted_step:
  "justStartedNotices (step E e s) = justStartedNotices s + (if isServerConnected e then 1 else 0)"
  by (cases e)
    (auto simp: justStartedNotices_def handler_defs Let_def split_def openServer_effects closeServer_effects
      filter_launchFileInExternalBrowser filter_launchFileInEmbeddedPreview
      split: option.splits)


subsection \<open>The sample manager, evaluated\<close>

lemma sampleRunning_eval:
  "sampleRunning =
     \<lparr>currentPanel = Some \<lparr>bp_file = ''/index.html'', bp_panel = WebviewPanel 0\<rparr>,
      previewActive = True, currentTimeout = None, notifiedAboutLooseFiles = False,
      pendingLaunchInfo = None, runTaskWithExternalPreview = True, serverIsRunning = True,
      taskIsRunning = True, httpPort = 3000, pendingPort = 3000, config = sampleSettings,
      timers = [], nextTimer = 0, nextPanel = 1,
      effects =
        [ServerOpenServer 3000, TaskServerStarted ''http://127.0.0.1:3000'' JUST_STARTED,
         CreateWebviewPanel, NewBrowserPreview ''/index.html'' (WebviewPanel 0)]\<rparr>"
  by code_simp



subsection \<open>Reachable states, requests and connections\<close>

lemma timer_inv_newManager: "timer_inv (newManager cfg)"
  by (simp add: timer_inv_def newManager_def)

lemma pending_inv_newManager: "pending_inv (newManager cfg)"
  by (simp add: pending_inv_def newManager_def)

lemma timer_inv_run: "timer_inv s \<Longrightarrow> timer_inv (run E es s)"
  by (induction es arbitrary: s) (simp_all add: timer_inv_step)

lemma pending_inv_run: "pending_inv s \<Longrightarrow> pending_inv (run E es s)"
  by (induction es arbitrary: s) (simp_all add: pending_inv_step)

lemma run_append: "run E (es @ es') s = run E es' (run E es s)"
  by (induction es arbitrary: s) simp_all

lemma createOrShow_stopped:
  "\<not> serverIsRunning s \<Longrightarrow>
     createOrShowEmbeddedPreview E pnl f rel s =
       s\<lparr>pendingLaunchInfo := Some \<lparr>external = False, file = f, relative = rel, panel = pnl\<rparr>,
         effects := effects s @ [ServerOpenServer (httpPort s)]\<rparr>"
  by (simp add: createOrShowEmbeddedPreview_def openServer_def server_openServer_def emit_def)

lemma sessions_launchEmbedded:
  "sessionsCreated (launchFileInEmbeddedPreview E f rel pnl s) =
     sessionsCreated s + (if currentPanel s = None then 1 else 0)"
  by (simp add: sessionsCreated_def launchFileInEmbeddedPreview_def startEmbeddedPreview_def
      clearTimeout_def createWebviewPanel_def split_def Let_def filter_transformNonRelativeFile
      split: option.splits)

lemma onConnected_pending: "pendingLaunchInfo (onConnected E u s) = None"
  by (simp add: onConnected_def Let_def split: option.splits)

lemma onConnected_no_pending:
  "pendingLaunchInfo s = None \<Longrightarrow> onConnected E u s = emit (TaskServerStarted u JUST_STARTED) s"
  by (simp add: onConnected_def Let_def)

lemma onConnected_sessions:
  "sessionsCreated (onConnected E u s) \<le> sessionsCreated s + 1"
proof (cases "pendingLaunchInfo s")
  case None
  then show ?thesis by (simp add: onConnected_no_pending sessionsCreated_def)
next
  case (Some li)
  have a: "sessionsCreated (emit (TaskServerStarted u JUST_STARTED) s) = sessionsCreated s"
    by (simp add: sessionsCreated_def)
  show ?thesis
  proof (cases "external li")
    case True
    then show ?thesis using Some
      by (simp add: onConnected_def Let_def sessionsCreated_def filter_launchFileInExternalBrowser)
  next
    case False
    have "sessionsCreated (onConnected E u s) =
        sessionsCreated (launchFileInEmbeddedPreview E (file li) (relative li) (panel li)
          (emit (TaskServerStarted u JUST_STARTED) s))"
      using Some False by (simp add: onConnected_def Let_def sessionsCreated_def)
    then show ?thesis using a by (simp add: sessions_launchEmbedded)
  qed
qed

lemma pending_step_cases:
  assumes "pendingLaunchInfo (step E e s) \<noteq> pendingLaunchInfo s"
  shows "(isLaunchRequest e \<and> \<not> serverIsRunning s \<and> pendingLaunchInfo (step E e s) \<noteq> None) \<or>
     (isServerConnected e \<and> pendingLaunchInfo (step E e s) = None)"
proof (cases e)
  case (ServerConnected u port)
  then show ?thesis by (simp add: onConnected_pending)
qed (use assms in \<open>auto simp: handler_defs Let_def split_def split: if_splits\<close>)

lemma launchEmbedded_shown_file:
  "currentPanel s = None \<Longrightarrow>
     map_option bp_file (currentPanel (launchFileInEmbeddedPreview E f rel pnl s)) =
       Some (fst (transformNonRelativeFile E rel f s))"
  by (simp add: launchFileInEmbeddedPreview_def startEmbeddedPreview_def clearTimeout_def
      createWebviewPanel_def split_def Let_def split: option.splits)

lemma requests_while_stopped:
  "\<not> serverIsRunning s \<Longrightarrow>
     \<not> serverIsRunning (run E (map requestEmbedded calls) s) \<and>
     startRequests (run E (map requestEmbedded calls) s) = startRequests s + length calls \<and>
     sessionsCreated (run E (map requestEmbedded calls) s) = sessionsCreated s"
proof (induction calls arbitrary: s)
  case Nil
  then show ?case by simp
next
  case (Cons c calls)
  obtain pnl f rel where c: "c = (pnl, f, rel)" by (cases c) auto
  let ?s1 = "createOrShowEmbeddedPreview E pnl f rel s"
  have a: "\<not> serverIsRunning ?s1" "startRequests ?s1 = startRequests s + 1"
    "sessionsCreated ?s1 = sessionsCreated s"
    using Cons.prems by (simp_all add: createOrShow_stopped startRequests_def sessionsCreated_def)
  from Cons.IH [OF a(1)] a show ?case by (simp add: c)
qed

lemma connected_without_pending:
  "pendingLaunchInfo s = None \<Longrightarrow>
     sessionsCreated (run E (map connected conns) s) = sessionsCreated s"
proof (induction conns arbitrary: s)
  case Nil
  then show ?case by simp
next
  case (Cons c conns)
  obtain u port where c: "c = (u, port)" by (cases c) auto
  let ?s1 = "step E (ServerConnected u port) s"
  have a: "pendingLaunchInfo ?s1 = None" by (simp add: onConnected_pending)
  have b: "sessionsCreated ?s1 = sessionsCreated s"
    using Cons.prems by (simp add: onConnected_no_pending sessionsCreated_def)
  from Cons.IH [OF a] b show ?case by (simp add: c)
qed

lemma connected_sessions:
  "sessionsCreated (run E (map connected conns) s) \<le> sessionsCreated s + 1"
proof (cases conns)
  case Nil
  then show ?thesis by simp
next
  case (Cons c conns')
  obtain u port where c: "c = (u, port)" by (cases c) auto
  let ?s1 = "step E (ServerConnected u port) s"
  have a: "pendingLaunchInfo ?s1 = None" by (simp add: onConnected_pending)
  have b: "sessionsCreated ?s1 \<le> sessionsCreated s + 1"
    using onConnected_sessions [of E u "s\<lparr>serverIsRunning := True, httpPort := port\<rparr>"]
    by (simp add: sessionsCreated_def)
  from connected_without_pending [OF a, of E conns'] b show ?thesis by (simp add: Cons c)
qed

lemma timer_inv_reachable: "timer_inv (run E es (newManager cfg))"
  by (rule timer_inv_run [OF timer_inv_newManager])

lemma previewActive_step_cases:
  "(previewActive s \<and> \<not> previewActive (step E e s) \<longrightarrow> isTimeoutFired e) \<and>
   (\<not> previewActive s \<and> previewActive (step E e s) \<longrightarrow>
      (isLaunchRequest e \<or> isServerConnected e) \<and> currentPanel (step E e s) \<noteq> None)"
proof (cases e)
  case (CreateOrShowEmbeddedPreview pnl f rel)
  then show ?thesis
    by (auto simp: createOrShowEmbeddedPreview_def launchFileInEmbeddedPreview_def
        startEmbeddedPreview_def clearTimeout_def createWebviewPanel_def split_def Let_def
        split: option.splits if_splits)
next
  case (ServerConnected u port)
  then show ?thesis
    by (auto simp: onConnected_def launchFileInEmbeddedPreview_def
        startEmbeddedPreview_def clearTimeout_def createWebviewPanel_def split_def Let_def
        split: option.splits if_splits)
qed (auto simp: handler_defs Let_def split_def split: if_splits)

lemma samplePreview_eval:
  "samplePreview =
     \<lparr>currentPanel = Some \<lparr>bp_file = ''/index.html'', bp_panel = WebviewPanel 0\<rparr>,
      previewActive = True, currentTimeout = None, notifiedAboutLooseFiles = False,
      pendingLaunchInfo = None, runTaskWithExternalPreview = True, serverIsRunning = True,
      taskIsRunning = False, httpPort = 3000, pendingPort = 3000, config = sampleSettings,
      timers = [], nextTimer = 0, nextPanel = 1,
      effects =
        [ServerOpenServer 3000, TaskServerStarted ''http://127.0.0.1:3000'' JUST_STARTED,
         CreateWebviewPanel, NewBrowserPreview ''/index.html'' (WebviewPanel 0)]\<rparr>"
  by code_simp

lemma sampleDisposed_step: "sampleDisposed = step sampleEnv PanelDisposed samplePreview"
  by (simp add: sampleDisposed_def samplePreview_def run_append)

lemma sampleDisposed_eval:
  "sampleDisposed =
     \<lparr>currentPanel = None,
      previewActive = True, currentTimeout = Some 0, notifiedAboutLooseFiles = False,
      pendingLaunchInfo = None, runTaskWithExternalPreview = True, serverIsRunning = True,
      taskIsRunning = False, httpPort = 3000, pendingPort = 3000, config = sampleSettings,
      timers = [(0, 180000)], nextTimer = 1, nextPanel = 1,
      effects =
        [ServerOpenServer 3000, TaskServerStarted ''http://127.0.0.1:3000'' JUST_STARTED,
         CreateWebviewPanel, NewBrowserPreview ''/index.html'' (WebviewPanel 0)]\<rparr>"
  unfolding sampleDisposed_step samplePreview_eval by code_simp



lemma newManager_sample:
  "\<not> serverIsRunning (newManager sampleSettings)"
  "currentPanel (newManager sampleSettings) = None"
  "pendingLaunchInfo (newManager sampleSettings) = None"
  "startRequests (newManager sampleSettings) = 0"
  "sessionsCreated (newManager sampleSettings) = 0"
  by (simp_all add: newManager_def startRequests_def sessionsCreated_def)

lemma samplePreview_facts:
  "currentPanel samplePreview \<noteq> None" "previewActive samplePreview"
  "serverIsRunning samplePreview" "nextTimer samplePreview = 0"
  "\<lfloor>serverKeepAliveAfterEmbeddedPreviewClose (config samplePreview) * 1000 * 60\<rfloor> = 180000"
  by (simp_all add: samplePreview_eval sampleSettings_def)

lemma sampleDisposed_facts:
  "(0::nat) \<in> set (map fst (timers sampleDisposed))" "previewActive sampleDisposed"
  "serverIsRunning sampleDisposed" "\<not> taskIsRunning sampleDisposed"
  "runTaskWithExternalPreview sampleDisposed" "serverStops sampleDisposed = 0"
  by (simp_all add: sampleDisposed_eval serverStops_def)


section \<open>The claims\<close>

subsection \<open>Opening and closing the server\<close>

text \<open>
  C6. \<open>openServer\<close> returns the result of the start request when the server is not running.
  When the server is running it returns true, and it notifies the task provider, with the
  status \<open>STARTED_BY_EMBEDDED_PREV\<close>, exactly when \<open>fromTask\<close> holds. It never sends
  \<open>JUST_STARTED\<close>: among all events only the connection of the server adds such a notice.
\<close>

theorem openServer_result_and_status:
  "(\<not> serverIsRunning s \<longrightarrow>
      fst (openServer E fromTask s) = server_openServer_result E (httpPort s) \<and>
      snd (openServer E fromTask s) = emit (ServerOpenServer (httpPort s)) s) \<and>
   (serverIsRunning s \<longrightarrow> fst (openServer E fromTask s) = True) \<and>
   (serverIsRunning s \<and> fromTask \<longrightarrow>
      snd (openServer E fromTask s) =
        emit (TaskServerStarted (resolveExternalHTTPUri E (httpPort s)) STARTED_BY_EMBEDDED_PREV) s) \<and>
   (serverIsRunning s \<and> \<not> fromTask \<longrightarrow> snd (openServer E fromTask s) = s) \<and>
   justStartedNotices (snd (openServer E fromTask s)) = justStartedNotices s \<and>
   justStartedNotices (step E e s) = justStartedNotices s + (if isServerConnected e then 1 else 0)"
proof -
  have "justStartedNotices (snd (openServer E fromTask s)) = justStartedNotices s"
    using justStarted_step [of E "OpenServer fromTask" s] by simp
  then show ?thesis
    using justStarted_step [of E e s] by (simp add: openServer_def server_openServer_def)
qed

theorem openServer_result_and_status_witness:
  "serverIsRunning sampleRunning \<and>
   fst (openServer sampleEnv True sampleRunning) \<and>
   effects (snd (openServer sampleEnv True sampleRunning)) =
     effects sampleRunning @ [TaskServerStarted ''http://127.0.0.1:3000'' STARTED_BY_EMBEDDED_PREV] \<and>
   snd (openServer sampleEnv False sampleRunning) = sampleRunning \<and>
   \<not> serverIsRunning (newManager sampleSettings) \<and>
   fst (openServer sampleEnv True (newManager sampleSettings)) \<and>
   effects (snd (openServer sampleEnv True (newManager sampleSettings))) = [ServerOpenServer 3000]"
proof -
  have a: "serverIsRunning sampleRunning" "httpPort sampleRunning = 3000"
    by (simp_all add: sampleRunning_eval)
  have b: "\<not> serverIsRunning (newManager sampleSettings)"
    "httpPort (newManager sampleSettings) = 3000" "effects (newManager sampleSettings) = []"
    by (simp_all add: newManager_def sampleSettings_def)
  have c: "resolveExternalHTTPUri sampleEnv 3000 = ''http://127.0.0.1:3000''"
    "server_openServer_result sampleEnv 3000"
    by code_simp+
  from openServer_result_and_status [of sampleRunning sampleEnv True] a(1)
  have 1: "fst (openServer sampleEnv True sampleRunning)"
    and 2: "snd (openServer sampleEnv True sampleRunning) =
      emit (TaskServerStarted (resolveExternalHTTPUri sampleEnv (httpPort sampleRunning))
        STARTED_BY_EMBEDDED_PREV) sampleRunning"
    by blast+
  have 3: "effects (snd (openServer sampleEnv True sampleRunning)) =
     effects sampleRunning @ [TaskServerStarted ''http://127.0.0.1:3000'' STARTED_BY_EMBEDDED_PREV]"
    by (subst 2) (simp add: a c)
  from openServer_result_and_status [of sampleRunning sampleEnv False] a(1)
  have 4: "snd (openServer sampleEnv False sampleRunning) = sampleRunning"
    by blast
  from openServer_result_and_status [of "newManager sampleSettings" sampleEnv True] b(1)
  have 5: "fst (openServer sampleEnv True (newManager sampleSettings)) =
      server_openServer_result sampleEnv (httpPort (newManager sampleSettings))"
    and 6: "snd (openServer sampleEnv True (newManager sampleSettings)) =
      emit (ServerOpenServer (httpPort (newManager sampleSettings))) (newManager sampleSettings)"
    by blast+
  have 7: "fst (openServer sampleEnv True (newManager sampleSettings))"
    by (subst 5) (simp add: b c)
  have 8: "effects (snd (openServer sampleEnv True (newManager sampleSettings))) = [ServerOpenServer 3000]"
    by (subst 6) (simp add: b)
  show ?thesis using a(1) b(1) 1 3 4 7 8 by blast
qed



text \<open>
  C7. \<open>closeServer\<close> returns true exactly when the server is running. Then it stops the
  server, closes the preview if there is one, stops the task if it is running and marks the
  connection as disconnected, in that order. When the server is not running it returns false
  and the manager, with the calls recorded so far, is unchanged.
\<close>

theorem closeServer_teardown_iff_running:
  "fst (closeServer s) = serverIsRunning s \<and>
   (serverIsRunning s \<longrightarrow>
      snd (closeServer s) =
        s\<lparr>serverIsRunning := False,
          effects := effects s @ [ServerCloseServer]
            @ (if currentPanel s \<noteq> None then [PanelClose] else [])
            @ (if taskIsRunning s then [TaskServerStop True] else [])
            @ [ConnectionDisconnected]\<rparr>) \<and>
   (\<not> serverIsRunning s \<longrightarrow> snd (closeServer s) = s)"
  by (simp add: closeServer_def server_closeServer_def emit_def Let_def)

theorem closeServer_teardown_witness:
  "serverIsRunning sampleRunning \<and> fst (closeServer sampleRunning) \<and>
   effects (snd (closeServer sampleRunning)) =
     effects sampleRunning @ [ServerCloseServer, PanelClose, TaskServerStop True, ConnectionDisconnected] \<and>
   \<not> serverIsRunning (newManager sampleSettings) \<and>
   \<not> fst (closeServer (newManager sampleSettings)) \<and>
   snd (closeServer (newManager sampleSettings)) = newManager sampleSettings"
proof -
  have a: "serverIsRunning sampleRunning" "currentPanel sampleRunning \<noteq> None"
    "taskIsRunning sampleRunning"
    by (simp_all add: sampleRunning_eval)
  have b: "\<not> serverIsRunning (newManager sampleSettings)"
    by (simp add: newManager_def)
  from closeServer_teardown_iff_running [of sampleRunning] a(1)
  have 1: "fst (closeServer sampleRunning)"
    and 2: "snd (closeServer sampleRunning) =
      sampleRunning\<lparr>serverIsRunning := False,
        effects := effects sampleRunning @ [ServerCloseServer]
          @ (if currentPanel sampleRunning \<noteq> None then [PanelClose] else [])
          @ (if taskIsRunning sampleRunning then [TaskServerStop True] else [])
          @ [ConnectionDisconnected]\<rparr>"
    by blast+
  have 3: "effects (snd (closeServer sampleRunning)) =
     effects sampleRunning @ [ServerCloseServer, PanelClose, TaskServerStop True, ConnectionDisconnected]"
    by (subst 2) (simp add: a)
  from closeServer_teardown_iff_running [of "newManager sampleSettings"] b
  have 4: "\<not> fst (closeServer (newManager sampleSettings))"
    and 5: "snd (closeServer (newManager sampleSettings)) = newManager sampleSettings"
    by blast+
  show ?thesis using a(1) b 1 3 4 5 by blast
qed


subsection \<open>Loose files\<close>

text \<open>
  C10. Every call of \<open>notifyLooseFileOpen\<close> sets the latch and sends one telemetry event,
  whether or not the prompt is shown. From then on no event shows the prompt; so when the
  setting is off at the first call, the prompt is never shown, whatever happens later.
\<close>

theorem notifyLooseFileOpen_latch:
  "notifiedAboutLooseFiles (notifyLooseFileOpen s) \<and>
   telemetryEvents (notifyLooseFileOpen s) = telemetryEvents s + 1 \<and>
   promptsShown (notifyLooseFileOpen s) =
     promptsShown s +
       (if \<not> notifiedAboutLooseFiles s \<and> notifyOnOpenLooseFile (config s) then 1 else 0) \<and>
   promptsShown (run E es (notifyLooseFileOpen s)) = promptsShown (notifyLooseFileOpen s) \<and>
   (\<not> notifyOnOpenLooseFile (config s) \<longrightarrow>
      promptsShown (run E es (notifyLooseFileOpen s)) = promptsShown s)"
proof -
  have "promptsShown (run E es (notifyLooseFileOpen s)) = promptsShown (notifyLooseFileOpen s)"
    using latch_run [of "notifyLooseFileOpen s" E es] by simp
  then show ?thesis
    by (simp add: promptsShown_def telemetryEvents_def notifyLooseFileOpen_effects)
qed

theorem notifyLooseFileOpen_latch_witness:
  "\<not> notifyOnOpenLooseFile (config (newManager quietSettings)) \<and>
   notifyOnOpenLooseFile
     (config (run sampleEnv looseFileLater (notifyLooseFileOpen (newManager quietSettings)))) \<and>
   telemetryEvents (run sampleEnv looseFileLater (notifyLooseFileOpen (newManager quietSettings))) = 3 \<and>
   promptsShown (run sampleEnv looseFileLater (notifyLooseFileOpen (newManager quietSettings))) = 0"
proof -
  have a: "\<not> notifyOnOpenLooseFile (config (newManager quietSettings))"
    by (simp add: newManager_def quietSettings_def)
  have b: "promptsShown (newManager quietSettings) = 0"
    by (simp add: newManager_def promptsShown_def)
  have c: "notifyOnOpenLooseFile
     (config (run sampleEnv looseFileLater (notifyLooseFileOpen (newManager quietSettings))))"
    "telemetryEvents (run sampleEnv looseFileLater (notifyLooseFileOpen (newManager quietSettings))) = 3"
    by code_simp+
  from notifyLooseFileOpen_latch [of "newManager quietSettings" sampleEnv looseFileLater] a b
  have "promptsShown (run sampleEnv looseFileLater (notifyLooseFileOpen (newManager quietSettings))) = 0"
    by simp
  with a c show ?thesis by blast
qed

text \<open>
  C9, as the code has it. A non-relative path that lies in a known workspace other than the
  default one is encoded through the endpoint manager, and nothing else happens: no
  telemetry event, no prompt, and the latch keeps its value.
\<close>

theorem transformNonRelativeFile_other_workspace:
  "\<not> absPathInDefaultWorkspace E f \<Longrightarrow> absPathInAnyWorkspace E f \<Longrightarrow>
     transformNonRelativeFile E False f s = (encodeLooseFileEndpoint E f, s)"
  by (simp add: transformNonRelativeFile_def encodeEndpoint_def)

theorem transformNonRelativeFile_other_workspace_witness:
  "\<not> absPathInDefaultWorkspace sampleEnv ''/other/a.html'' \<and>
   absPathInAnyWorkspace sampleEnv ''/other/a.html'' \<and>
   transformNonRelativeFile sampleEnv False ''/other/a.html'' sampleRunning =
     (''/endpoint_unsaved/other/a.html'', sampleRunning)"
proof -
  have a: "\<not> absPathInDefaultWorkspace sampleEnv ''/other/a.html''"
    and b: "absPathInAnyWorkspace sampleEnv ''/other/a.html''"
    and c: "encodeLooseFileEndpoint sampleEnv ''/other/a.html'' = ''/endpoint_unsaved/other/a.html''"
    by code_simp+
  from transformNonRelativeFile_other_workspace [OF a b, of sampleRunning]
  have "transformNonRelativeFile sampleEnv False ''/other/a.html'' sampleRunning =
     (''/endpoint_unsaved/other/a.html'', sampleRunning)"
    by (simp only: c)
  with a b show ?thesis by blast
qed

text \<open>
  C9 fails as stated: for \<^verbatim>\<open>/other/a.html\<close>, which lies in the second workspace, the path is
  encoded but no warning fires.
\<close>

theorem other_workspace_file_fires_no_warning:
  "\<not> absPathInDefaultWorkspace sampleEnv ''/other/a.html'' \<and>
   absPathInAnyWorkspace sampleEnv ''/other/a.html'' \<and>
   fst (transformNonRelativeFile sampleEnv False ''/other/a.html'' (newManager sampleSettings)) =
     ''/endpoint_unsaved/other/a.html'' \<and>
   effects (snd (transformNonRelativeFile sampleEnv False ''/other/a.html'' (newManager sampleSettings))) = [] \<and>
   \<not> notifiedAboutLooseFiles
       (snd (transformNonRelativeFile sampleEnv False ''/other/a.html'' (newManager sampleSettings)))"
  by code_simp




subsection \<open>The external preview\<close>

text \<open>
  C4, as the code has it. When neither the task nor the server is running, the server is
  started directly (no workspace, or run-as-task off) and the start fails, then
  \<open>showPreviewInBrowser\<close> has stored the intent and issued the one start request, and
  nothing else: no panel, no browser, no task. \<open>openServer\<close> returns false, but the method
  itself returns no value, and the manager it leaves is the one a successful start leaves;
  the intent stays in the slot.
\<close>

theorem showPreviewInBrowser_failed_start:
  assumes "\<not> taskIsRunning s" and "\<not> serverIsRunning s"
    and "workspace E = None \<or> \<not> runTaskWithExternalPreview s"
    and "\<not> server_openServer_result E (httpPort s)"
  shows "\<not> fst (openServer E False s) \<and>
    showPreviewInBrowser E f rel s =
      s\<lparr>pendingLaunchInfo := Some \<lparr>external = True, file = f, relative = rel, panel = None\<rparr>,
        effects := effects s @ [ServerOpenServer (httpPort s)]\<rparr> \<and>
    showPreviewInBrowser E f rel s =
      showPreviewInBrowser (E\<lparr>server_openServer_result := (\<lambda>port. True)\<rparr>) f rel s"
  using assms
  by (auto simp: showPreviewInBrowser_def openServer_def server_openServer_def emit_def Let_def)

theorem showPreviewInBrowser_failed_start_witness:
  "\<not> taskIsRunning (newManager directSettings) \<and> \<not> serverIsRunning (newManager directSettings) \<and>
   \<not> runTaskWithExternalPreview (newManager directSettings) \<and>
   \<not> server_openServer_result failEnv (httpPort (newManager directSettings)) \<and>
   \<not> fst (openServer failEnv False (newManager directSettings)) \<and>
   showPreviewInBrowser failEnv ''/page.html'' True (newManager directSettings) =
     (newManager directSettings)
       \<lparr>pendingLaunchInfo := Some \<lparr>external = True, file = ''/page.html'', relative = True, panel = None\<rparr>,
        effects := effects (newManager directSettings) @ [ServerOpenServer (httpPort (newManager directSettings))]\<rparr>"
proof -
  have a: "\<not> taskIsRunning (newManager directSettings)"
    and b: "\<not> serverIsRunning (newManager directSettings)"
    and c: "\<not> runTaskWithExternalPreview (newManager directSettings)"
    and d: "\<not> server_openServer_result failEnv (httpPort (newManager directSettings))"
    by code_simp+
  from c have c': "workspace failEnv = None \<or> \<not> runTaskWithExternalPreview (newManager directSettings)"
    by blast
  from showPreviewInBrowser_failed_start [OF a b c' d, of "''/page.html''" True] a b c d
  show ?thesis by blast
qed

text \<open>
  C4 fails as stated: after the failed start the intent is still stored, and when a later
  start request of the task provider succeeds and the server connects, the browser is
  opened on the page.
\<close>

theorem failed_start_keeps_pending_intent:
  "\<not> fst (openServer failEnv False (newManager directSettings)) \<and>
   pendingLaunchInfo (showPreviewInBrowser failEnv ''/page.html'' True (newManager directSettings)) =
     Some \<lparr>external = True, file = ''/page.html'', relative = True, panel = None\<rparr> \<and>
   effects (showPreviewInBrowser failEnv ''/page.html'' True (newManager directSettings)) =
     [ServerOpenServer 3000] \<and>
   effects
     (run sampleEnv [RequestToOpenServer, ServerConnected ''http://127.0.0.1:3000'' 3000]
        (showPreviewInBrowser failEnv ''/page.html'' True (newManager directSettings))) =
     [ServerOpenServer 3000, ServerOpenServer 3000,
      TaskServerStarted ''http://127.0.0.1:3000'' JUST_STARTED,
      OpenExternal ''http://127.0.0.1:3000/page.html'']"
  by code_simp

subsection \<open>The pending launch and the embedded preview\<close>

text \<open>
  C1. The pending launch is one optional field, so at most one intent exists. In every
  reachable state it is set only while the server is not running. It changes to a value
  only by a launch request made while the server is not running, and it changes to none
  only by the connection of the server, which always leaves it empty; a connection that
  finds it empty dispatches nothing. When two embedded previews are requested, first A and
  then B, before the server connects, the slot holds B, and the connection launches B on
  a state in which nothing of A is left: at most one preview is created, and it shows
  the file of B.
\<close>

theorem pending_launch_single_slot:
  "(pendingLaunchInfo (run E es (newManager cfg)) \<noteq> None \<longrightarrow>
      \<not> serverIsRunning (run E es (newManager cfg))) \<and>
   (pendingLaunchInfo (step E e s) \<noteq> pendingLaunchInfo s \<and> pendingLaunchInfo (step E e s) \<noteq> None \<longrightarrow>
      isLaunchRequest e \<and> \<not> serverIsRunning s) \<and>
   (pendingLaunchInfo (step E e s) \<noteq> pendingLaunchInfo s \<and> pendingLaunchInfo (step E e s) = None \<longrightarrow>
      isServerConnected e) \<and>
   pendingLaunchInfo (step E (ServerConnected u port) s) = None \<and>
   (pendingLaunchInfo s = None \<longrightarrow>
      step E (ServerConnected u port) s =
        emit (TaskServerStarted u JUST_STARTED) (s\<lparr>serverIsRunning := True, httpPort := port\<rparr>)) \<and>
   (\<not> serverIsRunning s \<longrightarrow>
      pendingLaunchInfo
        (step E (CreateOrShowEmbeddedPreview pB fB rB) (step E (CreateOrShowEmbeddedPreview pA fA rA) s)) =
        Some \<lparr>external = False, file = fB, relative = rB, panel = pB\<rparr> \<and>
      step E (ServerConnected u port)
        (step E (CreateOrShowEmbeddedPreview pB fB rB) (step E (CreateOrShowEmbeddedPreview pA fA rA) s)) =
        (launchFileInEmbeddedPreview E fB rB pB
           (s\<lparr>pendingLaunchInfo := Some \<lparr>external = False, file = fB, relative = rB, panel = pB\<rparr>,
              serverIsRunning := True, httpPort := port,
              effects := effects s @
                [ServerOpenServer (httpPort s), ServerOpenServer (httpPort s),
                 TaskServerStarted u JUST_STARTED]\<rparr>))
          \<lparr>pendingLaunchInfo := None\<rparr> \<and>
      sessionsCreated
        (step E (ServerConnected u port)
          (step E (CreateOrShowEmbeddedPreview pB fB rB) (step E (CreateOrShowEmbeddedPreview pA fA rA) s)))
        \<le> sessionsCreated s + 1) \<and>
   (\<not> serverIsRunning s \<and> currentPanel s = None \<longrightarrow>
      map_option bp_file
        (currentPanel
          (step E (ServerConnected u port)
            (step E (CreateOrShowEmbeddedPreview pB fB rB) (step E (CreateOrShowEmbeddedPreview pA fA rA) s)))) =
        Some (fst (transformNonRelativeFile E rB fB s)))"
proof -
  have 1: "pendingLaunchInfo (run E es (newManager cfg)) \<noteq> None \<longrightarrow>
      \<not> serverIsRunning (run E es (newManager cfg))"
    using pending_inv_run [OF pending_inv_newManager, of E es cfg] by (simp add: pending_inv_def)
  have 2: "pendingLaunchInfo (step E e s) \<noteq> pendingLaunchInfo s \<and> pendingLaunchInfo (step E e s) \<noteq> None \<longrightarrow>
      isLaunchRequest e \<and> \<not> serverIsRunning s"
    using pending_step_cases [of E e s] by argo
  have 3: "pendingLaunchInfo (step E e s) \<noteq> pendingLaunchInfo s \<and> pendingLaunchInfo (step E e s) = None \<longrightarrow>
      isServerConnected e"
    using pending_step_cases [of E e s] by argo
  have 4: "pendingLaunchInfo (step E (ServerConnected u port) s) = None"
    by (simp add: onConnected_pending)
  have 5: "pendingLaunchInfo s = None \<longrightarrow>
      step E (ServerConnected u port) s =
        emit (TaskServerStarted u JUST_STARTED) (s\<lparr>serverIsRunning := True, httpPort := port\<rparr>)"
    by (simp add: onConnected_no_pending)
  have 6: "\<not> serverIsRunning s \<longrightarrow>
      pendingLaunchInfo
        (step E (CreateOrShowEmbeddedPreview pB fB rB) (step E (CreateOrShowEmbeddedPreview pA fA rA) s)) =
        Some \<lparr>external = False, file = fB, relative = rB, panel = pB\<rparr>"
    by (simp add: createOrShow_stopped)
  have 7: "\<not> serverIsRunning s \<longrightarrow>
      step E (ServerConnected u port)
        (step E (CreateOrShowEmbeddedPreview pB fB rB) (step E (CreateOrShowEmbeddedPreview pA fA rA) s)) =
        (launchFileInEmbeddedPreview E fB rB pB
           (s\<lparr>pendingLaunchInfo := Some \<lparr>external = False, file = fB, relative = rB, panel = pB\<rparr>,
              serverIsRunning := True, httpPort := port,
              effects := effects s @
                [ServerOpenServer (httpPort s), ServerOpenServer (httpPort s),
                 TaskServerStarted u JUST_STARTED]\<rparr>))
          \<lparr>pendingLaunchInfo := None\<rparr>"
    by (simp add: createOrShow_stopped onConnected_def Let_def emit_def)
  have 8: "\<not> serverIsRunning s \<longrightarrow>
      sessionsCreated
        (step E (ServerConnected u port)
          (step E (CreateOrShowEmbeddedPreview pB fB rB) (step E (CreateOrShowEmbeddedPreview pA fA rA) s)))
        \<le> sessionsCreated s + 1"
  proof
    assume a: "\<not> serverIsRunning s"
    let ?s2 = "step E (CreateOrShowEmbeddedPreview pB fB rB) (step E (CreateOrShowEmbeddedPreview pA fA rA) s)"
    have "sessionsCreated (?s2\<lparr>serverIsRunning := True, httpPort := port\<rparr>) = sessionsCreated s"
      using a by (simp add: createOrShow_stopped sessionsCreated_def)
    then show "sessionsCreated (step E (ServerConnected u port) ?s2) \<le> sessionsCreated s + 1"
      using onConnected_sessions [of E u "?s2\<lparr>serverIsRunning := True, httpPort := port\<rparr>"]
      by simp
  qed
  have 9: "\<not> serverIsRunning s \<and> currentPanel s = None \<longrightarrow>
      map_option bp_file
        (currentPanel
          (step E (ServerConnected u port)
            (step E (CreateOrShowEmbeddedPreview pB fB rB) (step E (CreateOrShowEmbeddedPreview pA fA rA) s)))) =
        Some (fst (transformNonRelativeFile E rB fB s))"
    by (simp add: createOrShow_stopped onConnected_def Let_def launchEmbedded_shown_file
        transformNonRelativeFile_result)
  from 1 2 3 4 5 6 7 8 9 show ?thesis by blast
qed

theorem pending_launch_single_slot_witness:
  "pendingLaunchInfo
     (run sampleEnv [CreateOrShowEmbeddedPreview None ''/a.html'' True] (newManager sampleSettings)) \<noteq> None \<and>
   \<not> serverIsRunning
     (run sampleEnv [CreateOrShowEmbeddedPreview None ''/a.html'' True] (newManager sampleSettings)) \<and>
   \<not> serverIsRunning (newManager sampleSettings) \<and>
   pendingLaunchInfo
     (step sampleEnv (CreateOrShowEmbeddedPreview None ''/b.html'' True)
       (step sampleEnv (CreateOrShowEmbeddedPreview None ''/a.html'' True) (newManager sampleSettings))) =
     Some \<lparr>external = False, file = ''/b.html'', relative = True, panel = None\<rparr> \<and>
   pendingLaunchInfo
     (step sampleEnv (ServerConnected ''http://127.0.0.1:3000'' 3000)
       (step sampleEnv (CreateOrShowEmbeddedPreview None ''/b.html'' True)
         (step sampleEnv (CreateOrShowEmbeddedPreview None ''/a.html'' True) (newManager sampleSettings)))) = None \<and>
   sessionsCreated
     (step sampleEnv (ServerConnected ''http://127.0.0.1:3000'' 3000)
       (step sampleEnv (CreateOrShowEmbeddedPreview None ''/b.html'' True)
         (step sampleEnv (CreateOrShowEmbeddedPreview None ''/a.html'' True) (newManager sampleSettings)))) \<le> 1 \<and>
   map_option bp_file
     (currentPanel
       (step sampleEnv (ServerConnected ''http://127.0.0.1:3000'' 3000)
         (step sampleEnv (CreateOrShowEmbeddedPreview None ''/b.html'' True)
           (step sampleEnv (CreateOrShowEmbeddedPreview None ''/a.html'' True) (newManager sampleSettings))))) =
     Some ''/b.html''"
proof -
  note t = pending_launch_single_slot
    [where E = sampleEnv and es = "[CreateOrShowEmbeddedPreview None ''/a.html'' True]"
      and cfg = sampleSettings and s = "newManager sampleSettings"
      and e = "CreateOrShowEmbeddedPreview None ''/a.html'' True"
      and u = "''http://127.0.0.1:3000''" and port = 3000
      and pA = None and fA = "''/a.html''" and rA = True
      and pB = None and fB = "''/b.html''" and rB = True]
  have a: "pendingLaunchInfo
     (run sampleEnv [CreateOrShowEmbeddedPreview None ''/a.html'' True] (newManager sampleSettings)) \<noteq> None"
    by (simp add: createOrShow_stopped newManager_sample)
  have b: "fst (transformNonRelativeFile sampleEnv True ''/b.html'' (newManager sampleSettings)) = ''/b.html''"
    by (simp add: transformNonRelativeFile_result)
  from t a have 1: "\<not> serverIsRunning
     (run sampleEnv [CreateOrShowEmbeddedPreview None ''/a.html'' True] (newManager sampleSettings))"
    by blast
  from t newManager_sample(1) have 2: "pendingLaunchInfo
     (step sampleEnv (CreateOrShowEmbeddedPreview None ''/b.html'' True)
       (step sampleEnv (CreateOrShowEmbeddedPreview None ''/a.html'' True) (newManager sampleSettings))) =
     Some \<lparr>external = False, file = ''/b.html'', relative = True, panel = None\<rparr>"
    and 3: "sessionsCreated
     (step sampleEnv (ServerConnected ''http://127.0.0.1:3000'' 3000)
       (step sampleEnv (CreateOrShowEmbeddedPreview None ''/b.html'' True)
         (step sampleEnv (CreateOrShowEmbeddedPreview None ''/a.html'' True) (newManager sampleSettings))))
       \<le> sessionsCreated (newManager sampleSettings) + 1"
    by blast+
  from t newManager_sample(1,2) have 4: "map_option bp_file
     (currentPanel
       (step sampleEnv (ServerConnected ''http://127.0.0.1:3000'' 3000)
         (step sampleEnv (CreateOrShowEmbeddedPreview None ''/b.html'' True)
           (step sampleEnv (CreateOrShowEmbeddedPreview None ''/a.html'' True) (newManager sampleSettings))))) =
     Some (fst (transformNonRelativeFile sampleEnv True ''/b.html'' (newManager sampleSettings)))"
    by blast
  note t' = pending_launch_single_slot
    [where E = sampleEnv and es = "[]" and cfg = sampleSettings
      and s = "step sampleEnv (CreateOrShowEmbeddedPreview None ''/b.html'' True)
         (step sampleEnv (CreateOrShowEmbeddedPreview None ''/a.html'' True) (newManager sampleSettings))"
      and e = "ServerConnected ''http://127.0.0.1:3000'' 3000"
      and u = "''http://127.0.0.1:3000''" and port = 3000
      and pA = None and fA = "''/a.html''" and rA = True
      and pB = None and fB = "''/b.html''" and rB = True]
  from t' have 5: "pendingLaunchInfo
     (step sampleEnv (ServerConnected ''http://127.0.0.1:3000'' 3000)
       (step sampleEnv (CreateOrShowEmbeddedPreview None ''/b.html'' True)
         (step sampleEnv (CreateOrShowEmbeddedPreview None ''/a.html'' True) (newManager sampleSettings)))) = None"
    by blast
  from 3 have sessions: "sessionsCreated
     (step sampleEnv (ServerConnected ''http://127.0.0.1:3000'' 3000)
       (step sampleEnv (CreateOrShowEmbeddedPreview None ''/b.html'' True)
         (step sampleEnv (CreateOrShowEmbeddedPreview None ''/a.html'' True) (newManager sampleSettings)))) \<le> 1"
    by (simp only: newManager_sample add_0)
  from 4 have shown: "map_option bp_file
     (currentPanel
       (step sampleEnv (ServerConnected ''http://127.0.0.1:3000'' 3000)
         (step sampleEnv (CreateOrShowEmbeddedPreview None ''/b.html'' True)
           (step sampleEnv (CreateOrShowEmbeddedPreview None ''/a.html'' True) (newManager sampleSettings))))) =
     Some ''/b.html''"
    by (simp only: b)
  from a 1 newManager_sample(1) 2 5 sessions shown show ?thesis by blast
qed

text \<open>
  C2, as the code has it. While the server is not running, every call of
  \<open>createOrShowEmbeddedPreview\<close> issues one start request, so a sequence of calls issues as
  many start requests as it has calls; the server stays stopped and no preview is created
  by the calls. The connections of the server that follow create at most one preview.
\<close>

theorem embedded_requests_while_stopped:
  "\<not> serverIsRunning s \<Longrightarrow>
     \<not> serverIsRunning (run E (map requestEmbedded calls) s) \<and>
     startRequests (run E (map requestEmbedded calls) s) = startRequests s + length calls \<and>
     sessionsCreated (run E (map requestEmbedded calls) s) = sessionsCreated s \<and>
     sessionsCreated (run E (map connected conns) (run E (map requestEmbedded calls) s))
       \<le> sessionsCreated s + 1"
  using requests_while_stopped [of s E calls]
    connected_sessions [of E conns "run E (map requestEmbedded calls) s"]
  by simp

theorem embedded_requests_while_stopped_witness:
  "\<not> serverIsRunning (newManager sampleSettings) \<and>
   startRequests
     (run sampleEnv (map requestEmbedded [(None, ''/a.html'', True), (None, ''/b.html'', True)])
        (newManager sampleSettings)) = 2 \<and>
   sessionsCreated
     (run sampleEnv (map connected [(''http://127.0.0.1:3000'', 3000), (''http://127.0.0.1:3000'', 3000)])
        (run sampleEnv (map requestEmbedded [(None, ''/a.html'', True), (None, ''/b.html'', True)])
           (newManager sampleSettings))) \<le> 1"
  using embedded_requests_while_stopped
    [OF newManager_sample(1), of sampleEnv "[(None, ''/a.html'', True), (None, ''/b.html'', True)]"
      "[(''http://127.0.0.1:3000'', 3000), (''http://127.0.0.1:3000'', 3000)]"]
    newManager_sample
  by simp

text \<open>
  C2 fails as stated: two calls made while the server is stopped issue two start requests.
\<close>

theorem two_requests_two_starts:
  "\<not> serverIsRunning (newManager sampleSettings) \<and>
   \<not> serverIsRunning
       (run sampleEnv [CreateOrShowEmbeddedPreview None ''/a.html'' True] (newManager sampleSettings)) \<and>
   startRequests
     (run sampleEnv
        [CreateOrShowEmbeddedPreview None ''/a.html'' True,
         CreateOrShowEmbeddedPreview None ''/b.html'' True]
        (newManager sampleSettings)) = 2"
  by code_simp

subsection \<open>The preview flag and the shutdown timer\<close>

text \<open>
  C3, as the code has it. In every reachable state, \<open>previewActive\<close> holds while a preview
  exists. The flag is set only by an event that starts a preview, the disposal of the panel
  removes the preview and leaves the flag as it is, and only the shutdown timer clears it.
  While the flag holds, a close request of the task provider only stops the bookkeeping of
  the task: the server is not closed.
\<close>

theorem previewActive_until_timer:
  "(currentPanel (run E es (newManager cfg)) \<noteq> None \<longrightarrow> previewActive (run E es (newManager cfg))) \<and>
   (\<not> previewActive s \<and> previewActive (step E e s) \<longrightarrow>
      (isLaunchRequest e \<or> isServerConnected e) \<and> currentPanel (step E e s) \<noteq> None) \<and>
   (currentPanel s \<noteq> None \<longrightarrow>
      currentPanel (step E PanelDisposed s) = None \<and>
      previewActive (step E PanelDisposed s) = previewActive s) \<and>
   (previewActive s \<and> \<not> previewActive (step E e s) \<longrightarrow> isTimeoutFired e) \<and>
   (h \<in> set (map fst (timers s)) \<longrightarrow> \<not> previewActive (step E (TimeoutFired h) s)) \<and>
   (previewActive s \<longrightarrow> step E RequestToCloseServer s = emit (TaskServerStop False) s)"
proof -
  have 1: "currentPanel (run E es (newManager cfg)) \<noteq> None \<longrightarrow>
      previewActive (run E es (newManager cfg))"
    using timer_inv_reachable [of E es cfg] by (simp add: timer_inv_def)
  have 3: "currentPanel s \<noteq> None \<longrightarrow>
      currentPanel (step E PanelDisposed s) = None \<and>
      previewActive (step E PanelDisposed s) = previewActive s"
    by (simp add: onDispose_def setTimeout_def Let_def)
  have 5: "h \<in> set (map fst (timers s)) \<longrightarrow> \<not> previewActive (step E (TimeoutFired h) s)"
    by (simp add: onTimeout_def Let_def)
  have 6: "previewActive s \<longrightarrow> step E RequestToCloseServer s = emit (TaskServerStop False) s"
    by (simp add: onRequestToCloseServer_def)
  from 1 3 5 6 previewActive_step_cases [of s E e] show ?thesis by blast
qed

theorem previewActive_until_timer_witness:
  "currentPanel samplePreview \<noteq> None \<and> previewActive samplePreview \<and>
   currentPanel (step sampleEnv PanelDisposed samplePreview) = None \<and>
   previewActive (step sampleEnv PanelDisposed samplePreview) \<and>
   (0::nat) \<in> set (map fst (timers sampleDisposed)) \<and>
   \<not> previewActive (step sampleEnv (TimeoutFired 0) sampleDisposed) \<and>
   previewActive sampleDisposed \<and>
   step sampleEnv RequestToCloseServer sampleDisposed = emit (TaskServerStop False) sampleDisposed"
proof -
  note t1 = previewActive_until_timer
    [where E = sampleEnv and es = previewEvents and cfg = sampleSettings
      and s = samplePreview and e = PanelDisposed and h = 0, folded samplePreview_def]
  note t2 = previewActive_until_timer
    [where E = sampleEnv and es = previewEvents and cfg = sampleSettings
      and s = sampleDisposed and e = "TimeoutFired 0" and h = 0, folded samplePreview_def]
  from t1 samplePreview_facts(1) have 1: "previewActive samplePreview"
    and 2: "currentPanel (step sampleEnv PanelDisposed samplePreview) = None"
    and 3: "previewActive (step sampleEnv PanelDisposed samplePreview) = previewActive samplePreview"
    by blast+
  from t2 sampleDisposed_facts(1,2)
  have 4: "\<not> previewActive (step sampleEnv (TimeoutFired 0) sampleDisposed)"
    and 5: "step sampleEnv RequestToCloseServer sampleDisposed = emit (TaskServerStop False) sampleDisposed"
    by blast+
  from samplePreview_facts(1) sampleDisposed_facts(1,2) 1 2 3 4 5 show ?thesis by blast
qed

text \<open>
  C3 fails as stated: after the panel is disposed no preview exists and \<open>previewActive\<close>
  still holds; a close request of the task provider then leaves the server running.
\<close>

theorem previewActive_after_dispose:
  "currentPanel sampleDisposed = None \<and> previewActive sampleDisposed \<and>
   serverIsRunning sampleDisposed \<and>
   serverIsRunning (step sampleEnv RequestToCloseServer sampleDisposed) \<and>
   effects (step sampleEnv RequestToCloseServer sampleDisposed) =
     effects sampleDisposed @ [TaskServerStop False]"
  by (simp add: sampleDisposed_eval onRequestToCloseServer_def)



end
